theory Spec2Isabelle
  imports Main "HOL-Library.Sublist"
begin

section \<open>Strings\<close>

text \<open>
  Python strings are modelled as \<^typ>\<open>string\<close>: the UTF-8 bytes of the text.  The source
  file is UTF-8, so a character outside ASCII in one of its literals is written here
  byte by byte with \<open>CHR\<close>.  A contiguous substring is \<^const>\<open>sublist\<close>.
\<close>

text \<open>
  The number of positions of \<open>xs\<close> at which the pattern \<open>p\<close> starts (overlapping
  occurrences are counted separately).
\<close>

fun count_occ :: "'a list \<Rightarrow> 'a list \<Rightarrow> nat" where
  "count_occ p [] = (if p = [] then 1 else 0)"
| "count_occ p (x # xs) = (if prefix p (x # xs) then 1 else 0) + count_occ p xs"

section \<open>Paper.js HTML wrapper\<close>

text \<open>
  \<^verbatim>\<open>build_paper_html(paperscript_code, canvas_id="dreamCanvas")\<close> returns an f-string.
  \<open>paper_html_head\<close> is its text up to the line of the canvas element and
  \<open>paper_html_tail\<close> its text from the closing script tag on; the lines between, which
  hold the three placeholders, are written out in \<open>build_paper_html\<close>.  The doubled
  braces of the f-string are single braces in its value.
\<close>

definition paper_html_head :: string where
  \<open>paper_html_head = concat
    [''\<newline>'',
     ''<!DOCTYPE html>\<newline>'',
     ''<html>\<newline>'',
     ''  <head>\<newline>'',
     ''    <meta charset="UTF-8" />\<newline>'',
     ''    <script type="text/javascript" src="https://cdnjs.cloudflare.com/ajax/libs/paper.js/0.12.15/paper-full.min.js"></script>\<newline>'',
     ''    <style>\<newline>'',
     ''      html, body {\<newline>'',
     ''        margin: 0;\<newline>'',
     ''        padding: 0;\<newline>'',
     ''        background: #111;\<newline>'',
     ''      }\<newline>'',
     ''      canvas {\<newline>'',
     ''        width: 100%;\<newline>'',
     ''        height: 100%;\<newline>'',
     ''      }\<newline>'',
     ''      #container {\<newline>'',
     ''        width: 100%;\<newline>'',
     ''        height: 100vh;\<newline>'',
     ''      }\<newline>'',
     ''    </style>\<newline>'',
     ''  </head>\<newline>'',
     ''  <body>\<newline>'',
     ''    <div id="container">\<newline>'']\<close>

definition paper_html_tail :: string where
  \<open>paper_html_tail = concat
    [''    </script>\<newline>'',
     ''  </body>\<newline>'',
     ''</html>\<newline>'',
     ''    '']\<close>

text \<open>An omitted \<^verbatim>\<open>canvas_id\<close> argument is \<open>None\<close>; the default is then used.\<close>

definition build_paper_html :: "string \<Rightarrow> string option \<Rightarrow> string" where
  \<open>build_paper_html paperscript_code canvas_id_arg =
     (let canvas_id = (case canvas_id_arg of None \<Rightarrow> ''dreamCanvas'' | Some c \<Rightarrow> c)
      in paper_html_head
         @ ''      <canvas id="'' @ canvas_id @ ''" resize></canvas>\<newline>''
         @ ''    </div>\<newline>''
         @ ''    <script type="text/paperscript" canvas="'' @ canvas_id @ ''">\<newline>''
         @ paperscript_code @ ''\<newline>''
         @ paper_html_tail)\<close>



section \<open>Exceptions\<close>

text \<open>
  A Python exception that leaves a function is the \<open>Inl\<close> of its result.  The two
  exception classes that the code under study distinguishes are named; any other class
  is \<open>OtherException\<close> with its name.
\<close>

datatype py_exception = AttributeError | ValueError | OtherException string

section \<open>The LLM call\<close>

text \<open>The fallback script, a plain (not formatted) string literal of the source.\<close>

definition DEFAULT_FALLBACK_PAPERSCRIPT :: string where
  \<open>DEFAULT_FALLBACK_PAPERSCRIPT = concat
    [''\<newline>'',
     ''// Fallback PaperScript demo (no API key found)\<newline>'',
     ''// Simple hand-drawn circle in a night sky.\<newline>'',
     ''\<newline>'',
     ''var W = 900, H = 600;\<newline>'',
     ''view.viewSize = new Size(W, H);\<newline>'',
     ''\<newline>'',
     ''var bg = new Path.Rectangle(view.bounds);\<newline>'',
     ''bg.fillColor = \'#050b1a\';\<newline>'',
     ''\<newline>'',
     ''function j(a){ return (Math.random()-0.5)*a; }\<newline>'',
     ''\<newline>'',
     ''function handCircle(center, radius, strokeCol, fillCol){\<newline>'',
     ''    var s = 40;\<newline>'',
     ''    var p = new Path();\<newline>'',
     ''    for (var i=0;i<s;i++){\<newline>'',
     ''        var ang = 360/s * i;\<newline>'',
     ''        var r = radius + j(radius*0.3);\<newline>'',
     ''        p.add(center.add(new Point({length:r, angle:ang})));\<newline>'',
     ''    }\<newline>'',
     ''    p.closed = true;\<newline>'',
     ''    p.strokeColor = strokeCol || new Color(1,1,1,0.9);\<newline>'',
     ''    p.strokeWidth = 1.4;\<newline>'',
     ''    if (fillCol) p.fillColor = fillCol;\<newline>'',
     ''    return p;\<newline>'',
     ''}\<newline>'',
     ''\<newline>'',
     ''var center = new Point(W/2, H/2);\<newline>'',
     ''var moon = handCircle(center, 80,\<newline>'',
     ''                      new Color(1,1,1,0.9),\<newline>'',
     ''                      new Color(0.98,0.98,0.94, 0.95));\<newline>'',
     ''\<newline>'',
     ''var title = new PointText({\<newline>'',
     ''    point: new Point(40, 40),\<newline>'',
     ''    content: "Fallback Visual '' @ [CHR 0xC2, CHR 0xAC, CHR 0xE2, CHR 0x88, CHR 0x91] @ '' Add GEMINI_API_KEY to get custom doodles",\<newline>'',
     ''    justification: \'left\',\<newline>'',
     ''    fillColor: new Color(1,1,1,0.85),\<newline>'',
     ''    fontFamily: \'Helvetica\',\<newline>'',
     ''    fontSize: 16\<newline>'',
     ''});\<newline>'',
     ''\<newline>'',
     ''var t = 0;\<newline>'',
     ''function onFrame(event){\<newline>'',
     ''    t += event.delta;\<newline>'',
     ''    moon.scale(1 + Math.sin(t*0.8)*0.0015);\<newline>'',
     ''    moon.fillColor.hue += 0.1;\<newline>'',
     ''}\<newline>'']\<close>

text \<open>
  The remote service is outside the program.  A request is what
  \<^verbatim>\<open>genai.GenerativeModel("gemini-1.5-pro").generate_content(prompt,
  generation_config={"temperature": 0.9})\<close> sends; the service is a function from the
  request to the exception the call raises or the response object it returns.  Of the
  response object the code uses two things: the outcome of reading its attribute
  \<^verbatim>\<open>.text\<close>, which is a string or an exception (the attribute may be missing, and it
  may be a property whose getter raises), and the value of \<^verbatim>\<open>str(response)\<close>.
\<close>

record request =
  model_name :: string
  contents :: string
  temperature :: string

record response =
  response_text :: "py_exception + string"
  response_str :: string

definition gemini_request :: "string \<Rightarrow> request" where
  "gemini_request prompt =
     \<lparr>model_name = ''gemini-1.5-pro'', contents = prompt, temperature = ''0.9''\<rparr>"

text \<open>
  \<open>generate_paperscript\<close> takes the value of the global \<^verbatim>\<open>GEMINI_API_KEY\<close> (the empty
  string when the variable is not set) and the remote service, and returns the list of
  requests it sent together with its result.
\<close>

definition generate_paperscript ::
  "string \<Rightarrow> (request \<Rightarrow> py_exception + response) \<Rightarrow> string
     \<Rightarrow> request list \<times> (py_exception + string)" where
  "generate_paperscript GEMINI_API_KEY generate_content prompt =
     (if GEMINI_API_KEY = [] then ([], Inr DEFAULT_FALLBACK_PAPERSCRIPT)
      else
        (case generate_content (gemini_request prompt) of
           Inl e \<Rightarrow> ([gemini_request prompt], Inl e)
         | Inr response \<Rightarrow>
             ([gemini_request prompt],
              (case response_text response of
                 Inr t \<Rightarrow> Inr t
               | Inl AttributeError \<Rightarrow> Inr (response_str response)
               | Inl e \<Rightarrow> Inl e))))"

section \<open>Prompts\<close>

text \<open>
  \<^verbatim>\<open>build_journal_prompt(user_text, context_type)\<close> returns an f-string; its fixed text
  is cut at the two placeholders and around the line that quotes the user's text.
\<close>

definition journal_prompt_goal :: string where
  \<open>journal_prompt_goal = concat
    [''\<newline>'',
     ''You are a creative code generator that ONLY outputs PaperScript code\<newline>'',
     ''for the Paper.js library (no HTML, no markdown, no explanations).\<newline>'',
     ''\<newline>'',
     ''Goal:\<newline>'',
     ''- Turn the following '']\<close>

definition journal_prompt_requirements :: string where
  \<open>journal_prompt_requirements = concat
    ['' journal text into a hand-drawn-style,\<newline>'',
     ''  animated visualization, in the spirit of Giorgia Lupi / Data Humanism.\<newline>'',
     ''\<newline>'',
     ''Requirements:\<newline>'',
     ''- Use an off-white paper-like background or a context-appropriate background\<newline>'',
     ''  (for example, deep night blue for night oceans).\<newline>'',
     ''- Use wobbly, imperfect lines and circles by jittering points, as if drawn by hand.\<newline>'',
     ''- Use soft, semi-transparent colors with an ink/watercolor vibe.\<newline>'',
     ''- Add gentle, meaningful motion via onFrame(event):\<newline>'',
     ''  - calm scenes: slow floating or breathing motion\<newline>'',
     ''  - intense scenes: more pronounced, but still organic motion\<newline>'',
     ''\<newline>'']\<close>

definition journal_prompt_rules :: string where
  \<open>journal_prompt_rules = concat
    [''\<newline>'',
     ''\<newline>'',
     ''Visual design rules:\<newline>'',
     ''- Do NOT draw a calendar grid here unless the text clearly describes schedule-like data.\<newline>'',
     ''- Instead, choose a metaphor that fits the story:\<newline>'',
     ''  - If the story is about a dream of swimming across seas at night, use curves of the earth,\<newline>'',
     ''    waves, stars, and two swimmers.\<newline>'',
     ''  - If it is about a warm memory at a caf'' @ [CHR 0xE2, CHR 0x88, CHR 0x9A, CHR 0xC2, CHR 0xA9] @ '', use circular tables, warm light halos, etc.\<newline>'',
     ''- Place any textual annotations as PointText in a subtle way (small caption or title).\<newline>'',
     ''- The drawing must fill a reasonably large canvas, for example about 1000x650.\<newline>'',
     ''  You can set it using:\<newline>'',
     ''    view.viewSize = new Size(1000, 650);\<newline>'',
     ''\<newline>'',
     ''PaperScript constraints:\<newline>'',
     ''- Assume Paper.js is already imported.\<newline>'',
     ''- Do not include HTML or <script> tags.\<newline>'',
     ''- Start directly with PaperScript (JavaScript-like) code.\<newline>'',
     ''- Define an onFrame(event) handler if you want animation.\<newline>'',
     ''\<newline>'',
     ''Output:\<newline>'',
     ''- ONLY valid PaperScript code.\<newline>'',
     ''    '']\<close>

definition build_journal_prompt :: "string \<Rightarrow> string \<Rightarrow> string" where
  \<open>build_journal_prompt user_text context_type =
     journal_prompt_goal @ context_type @ journal_prompt_requirements
     @ ''Story context:\<newline>''
     @ ''"""'' @ user_text @ ''"""\<newline>''
     @ journal_prompt_rules\<close>

section \<open>Data frames\<close>

text \<open>
  A pandas \<^verbatim>\<open>DataFrame\<close>: the columns in order, each with its name and the text of its
  dtype (\<^verbatim>\<open>str(df[col].dtype)\<close>, for instance \<^verbatim>\<open>int64\<close> or \<^verbatim>\<open>object\<close>), and the rows in
  order, each a list of cells.  Cells are integers, strings or missing values.
\<close>

datatype cell = IntCell int | StrCell string | NaN

record dataframe =
  columns :: "(string \<times> string) list"
  rows :: "cell list list"

text \<open>
  pandas is a library outside the program.  The functions below model what the calls
  of \<^verbatim>\<open>summarize_dataframe\<close> do, as pandas 1.x documents them (the keyword
  \<^verbatim>\<open>datetime_is_numeric\<close> exists in these versions only), on a POSIX host.
\<close>

text \<open>
  \<^verbatim>\<open>df[col].dtype\<close>: with one column of that name \<^verbatim>\<open>df[col]\<close> is a Series, which has a
  dtype; with several it is a DataFrame, which has no attribute \<^verbatim>\<open>dtype\<close> (unless the
  repeated name is \<^verbatim>\<open>dtype\<close> itself, a case left out here: the properties below that
  need the listing assume distinct names).
\<close>

definition column_dtype :: "dataframe \<Rightarrow> string \<Rightarrow> py_exception + string" where
  "column_dtype df col =
     (case filter (\<lambda>c. fst c = col) (columns df) of
        [] \<Rightarrow> Inl (OtherException ''KeyError'')
      | [c] \<Rightarrow> Inr (snd c)
      | _ \<Rightarrow> Inl AttributeError)"

text \<open>\<^verbatim>\<open>df.head(n)\<close>: the first \<open>n\<close> rows; for a negative \<open>n\<close>, all but the last \<open>-n\<close> rows.\<close>

definition head :: "dataframe \<Rightarrow> int \<Rightarrow> dataframe" where
  "head df n =
     df\<lparr>rows := (if 0 \<le> n then take (nat n) (rows df)
                  else take (length (rows df) - nat (- n)) (rows df))\<rparr>"

text \<open>
  \<^verbatim>\<open>str\<close> of a Python integer: the decimal digits, collected from the last one, with a
  minus sign before them for a negative number.
\<close>

fun decimal_digits :: "nat \<Rightarrow> string \<Rightarrow> string" where
  "decimal_digits n acc =
     (if n < 10 then (''0123456789'' ! n) # acc
      else decimal_digits (n div 10) ((''0123456789'' ! (n mod 10)) # acc))"

declare decimal_digits.simps [simp del]

definition str_of_int :: "int \<Rightarrow> string" where
  "str_of_int i =
     (if 0 \<le> i then decimal_digits (nat i) [] else CHR ''-'' # decimal_digits (nat (- i)) [])"

definition cell_text :: "cell \<Rightarrow> string" where
  "cell_text c = (case c of IntCell i \<Rightarrow> str_of_int i | StrCell s \<Rightarrow> s | NaN \<Rightarrow> [])"

text \<open>\<^verbatim>\<open>sep.join(xs)\<close>.\<close>

fun join :: "string \<Rightarrow> string list \<Rightarrow> string" where
  "join sep [] = []"
| "join sep [x] = x"
| "join sep (x # y # ys) = x @ sep @ join sep (y # ys)"

text \<open>
  One record of the CSV writer with minimal quoting: a field that holds a comma, a
  double quote or a line break is put in double quotes with its double quotes doubled;
  a record that is a single empty field is written as two double quotes.
\<close>

definition csv_field :: "string \<Rightarrow> string" where
  \<open>csv_field s =
     (if list_ex (\<lambda>c. c = CHR '','' \<or> c = CHR 0x22 \<or> c = CHR ''\<newline>'' \<or> c = CHR 0x0D) s
      then ''"'' @ concat (map (\<lambda>c. if c = CHR 0x22 then ''""'' else [c]) s) @ ''"''
      else s)\<close>

definition csv_record :: "string list \<Rightarrow> string" where
  \<open>csv_record texts =
     (if texts = [[]] then ''""'' else join '','' (map csv_field texts)) @ ''\<newline>''\<close>

text \<open>\<^verbatim>\<open>df.to_csv(index=False)\<close>: the header record, then one record for each row.\<close>

definition to_csv_noindex :: "dataframe \<Rightarrow> string" where
  "to_csv_noindex df =
     csv_record (map fst (columns df)) @ concat (map (\<lambda>r. csv_record (map cell_text r)) (rows df))"

text \<open>
  \<^verbatim>\<open>df.describe(include="all", datetime_is_numeric=True).to_csv()\<close>: pandas refuses to
  describe a frame without columns (\<^verbatim>\<open>ValueError: Cannot describe a DataFrame without
  columns\<close>).  The statistics are floating-point numbers; the CSV text of the table of
  statistics is the parameter \<open>describe_csv\<close>.
\<close>

definition describe_to_csv :: "(dataframe \<Rightarrow> string) \<Rightarrow> dataframe \<Rightarrow> py_exception + string" where
  "describe_to_csv describe_csv df =
     (if columns df = [] then Inl ValueError else Inr (describe_csv df))"

section \<open>The dataset summary\<close>

text \<open>
  The list comprehension \<^verbatim>\<open>[f"{col} ({str(df[col].dtype)})" for col in df.columns]\<close>: the
  first exception ends it.
\<close>

fun column_entries :: "dataframe \<Rightarrow> string list \<Rightarrow> py_exception + string list" where
  "column_entries df [] = Inr []"
| "column_entries df (col # cols) =
     (case column_dtype df col of
        Inl e \<Rightarrow> Inl e
      | Inr dt \<Rightarrow>
          (case column_entries df cols of
             Inl e \<Rightarrow> Inl e
           | Inr es \<Rightarrow> Inr ((col @ '' ('' @ dt @ '')'') # es)))"

text \<open>
  \<^verbatim>\<open>summarize_dataframe(df, max_rows=5)\<close>.  The buffer is local, so an exception in one
  of the writes leaves nothing behind; the writes happen in the order of the source.
  An omitted \<^verbatim>\<open>max_rows\<close> argument is \<open>None\<close>.
\<close>

definition summarize_dataframe ::
  "(dataframe \<Rightarrow> string) \<Rightarrow> dataframe \<Rightarrow> int option \<Rightarrow> py_exception + string" where
  \<open>summarize_dataframe describe_csv df max_rows_arg =
     (let max_rows = (case max_rows_arg of None \<Rightarrow> 5 | Some k \<Rightarrow> k)
      in case column_entries df (map fst (columns df)) of
           Inl e \<Rightarrow> Inl e
         | Inr entries \<Rightarrow>
             (case describe_to_csv describe_csv df of
                Inl e \<Rightarrow> Inl e
              | Inr stats \<Rightarrow>
                  Inr (''Columns:\<newline>''
                       @ join '', '' entries
                       @ ''\<newline>\<newline>Example rows:\<newline>''
                       @ to_csv_noindex (head df max_rows)
                       @ ''\<newline>\<newline>Basic stats (where numeric):\<newline>''
                       @ stats)))\<close>

text \<open>
  \<^verbatim>\<open>build_table_prompt(df)\<close> calls the summarizer without \<^verbatim>\<open>max_rows\<close> and returns an
  f-string around the summary; an exception of the summarizer passes through.
\<close>

definition table_prompt_goal :: string where
  \<open>table_prompt_goal = concat
    [''\<newline>'',
     ''You are a creative code generator that ONLY outputs PaperScript code\<newline>'',
     ''for the Paper.js library (no HTML, no markdown, no explanations).\<newline>'',
     ''\<newline>'',
     ''Goal:\<newline>'',
     ''- Turn the following tabular dataset into a human, hand-drawn-style\<newline>'',
     ''  grid or table visualization (Data Humanism style), similar to a calendar\<newline>'',
     ''  or matrix but with doodles representing the data in each cell.\<newline>'',
     ''\<newline>'']\<close>

definition table_prompt_rules :: string where
  \<open>table_prompt_rules = concat
    [''\<newline>'',
     ''Visual design rules:\<newline>'',
     ''- Use an off-white paper-like background.\<newline>'',
     ''- Draw a grid or table that reflects the logical structure of the data:\<newline>'',
     ''  - rows = records, days, items\<newline>'',
     ''  - columns = features / categories\<newline>'',
     ''- Use wobbly sketch lines instead of perfectly straight grid lines\<newline>'',
     ''  (jitter the points on each line).\<newline>'',
     ''- For each row/column cell, draw a small doodle that reflects:\<newline>'',
     ''  - magnitude (size / length)\<newline>'',
     ''  - category (color or shape)\<newline>'',
     ''  - special values (e.g. missing, zero, high) with distinct marks.\<newline>'',
     ''- Avoid standard bar chart / pie chart style; think hand-drawn calendar\<newline>'',
     ''  or Dear Data postcard style.\<newline>'',
     ''- Include a title and a small legend using PointText and a small\<newline>'',
     ''  legend box in a corner.\<newline>'',
     ''- Canvas can be about 1100x700:\<newline>'',
     ''    view.viewSize = new Size(1100, 700);\<newline>'',
     ''\<newline>'',
     ''PaperScript constraints:\<newline>'',
     ''- Assume Paper.js is already imported.\<newline>'',
     ''- Do not include HTML or <script> tags.\<newline>'',
     ''- Start directly with PaperScript code.\<newline>'',
     ''- Define an onFrame(event) ONLY if it helps with subtle motion (e.g. breathing).\<newline>'',
     ''\<newline>'',
     ''Output:\<newline>'',
     ''- ONLY valid PaperScript code.\<newline>'',
     ''    '']\<close>

definition build_table_prompt :: "(dataframe \<Rightarrow> string) \<Rightarrow> dataframe \<Rightarrow> py_exception + string" where
  \<open>build_table_prompt describe_csv df =
     (case summarize_dataframe describe_csv df None of
        Inl e \<Rightarrow> Inl e
      | Inr summary \<Rightarrow>
          Inr (table_prompt_goal
               @ ''Dataset summary:\<newline>''
               @ ''----------------\<newline>''
               @ summary @ ''\<newline>''
               @ ''----------------\<newline>''
               @ table_prompt_rules))\<close>

section \<open>Notions used by the properties\<close>

text \<open>
  Markup in a text: an angle-bracket tag, that is a \<^verbatim>\<open><\<close> followed by a letter, or by a
  slash and a letter, with a \<^verbatim>\<open>>\<close> somewhere after it.
\<close>

definition is_letter :: "char \<Rightarrow> bool" where
  "is_letter c = (let n = (of_char c :: nat) in (65 \<le> n \<and> n \<le> 90) \<or> (97 \<le> n \<and> n \<le> 122))"

fun tag_name_start :: "string \<Rightarrow> bool" where
  "tag_name_start [] = False"
| "tag_name_start [c] = is_letter c"
| "tag_name_start (c # d # cs) = (is_letter c \<or> (c = CHR ''/'' \<and> is_letter d))"

fun has_markup_tag :: "string \<Rightarrow> bool" where
  "has_markup_tag [] = False"
| "has_markup_tag (c # cs) =
     ((c = CHR ''<'' \<and> tag_name_start cs \<and> CHR ''>'' \<in> set cs) \<or> has_markup_tag cs)"

definition is_angle :: "char \<Rightarrow> bool" where
  "is_angle c = (c = CHR ''<'' \<or> c = CHR ''>'')"

text \<open>The dataset of the specification's scenario.\<close>

definition age_name_frame :: dataframe where
  "age_name_frame =
     \<lparr>columns = [(''age'', ''int64''), (''name'', ''object'')],
      rows = [[IntCell 5, StrCell ''a''], [IntCell 6, StrCell ''b''], [IntCell 7, StrCell ''c'']]\<rparr>"

section \<open>Counting occurrences\<close>

lemma count_occ_zero_iff: "count_occ p xs = 0 \<longleftrightarrow> \<not> sublist p xs"
proof (induction xs)
  case Nil
  then show ?case by simp
next
  case (Cons x xs)
  show ?case
    by (simp add: Cons.IH sublist_Cons_right)
qed



section \<open>Properties of the HTML wrapper\<close>








text \<open>
  C9.  For every script and every canvas id, the output holds the id twice: in the
  \<open>id\<close> attribute of the canvas element and, a few lines further, in the \<open>canvas\<close>
  attribute of the \<^verbatim>\<open>text/paperscript\<close> script element whose body is the script.  When
  the id is omitted, it is \<^verbatim>\<open>dreamCanvas\<close>.
\<close>

theorem build_paper_html_canvas_binding:
  \<open>(\<exists>pre post. build_paper_html script (Some cid) =
       pre @ (''<canvas id="'' @ cid @ ''" resize></canvas>'')
         @ ''\<newline>    </div>\<newline>    ''
         @ (''<script type="text/paperscript" canvas="'' @ cid @ ''">'')
         @ ''\<newline>'' @ script @ ''\<newline>    </script>'' @ post)
   \<and> build_paper_html script None = build_paper_html script (Some ''dreamCanvas'')\<close>
proof
  have \<open>build_paper_html script (Some cid) =
       (paper_html_head @ ''      '') @ (''<canvas id="'' @ cid @ ''" resize></canvas>'')
         @ ''\<newline>    </div>\<newline>    ''
         @ (''<script type="text/paperscript" canvas="'' @ cid @ ''">'')
         @ ''\<newline>'' @ script @ ''\<newline>    </script>'' @ ''\<newline>  </body>\<newline></html>\<newline>    ''\<close>
    by (simp add: build_paper_html_def paper_html_tail_def)
  then show \<open>\<exists>pre post. build_paper_html script (Some cid) =
       pre @ (''<canvas id="'' @ cid @ ''" resize></canvas>'')
         @ ''\<newline>    </div>\<newline>    ''
         @ (''<script type="text/paperscript" canvas="'' @ cid @ ''">'')
         @ ''\<newline>'' @ script @ ''\<newline>    </script>'' @ post\<close>
    by blast
  show "build_paper_html script None = build_paper_html script (Some ''dreamCanvas'')"
    by (simp add: build_paper_html_def)
qed

section \<open>Properties of the LLM call\<close>

text \<open>
  C1.  For every prompt, when \<^verbatim>\<open>GEMINI_API_KEY\<close> is empty, \<open>generate_paperscript\<close> returns
  exactly \<open>DEFAULT_FALLBACK_PAPERSCRIPT\<close>, whatever the prompt and whatever the remote
  service would do, and it sends no request.
\<close>

theorem generate_paperscript_no_key:
  "generate_paperscript [] generate_content prompt = ([], Inr DEFAULT_FALLBACK_PAPERSCRIPT)"
  by (simp add: generate_paperscript_def)

text \<open>
  C5, as amended.  With a credential, one request is sent.  When the call returns a
  response whose \<^verbatim>\<open>.text\<close> raises \<^verbatim>\<open>AttributeError\<close>, the result is \<^verbatim>\<open>str(response)\<close>;
  when \<^verbatim>\<open>.text\<close> gives a string, the result is that string.  An exception leaves
  \<open>generate_paperscript\<close> only when the call raised it or when \<^verbatim>\<open>.text\<close> raised it and
  it is not an \<^verbatim>\<open>AttributeError\<close>.
\<close>

theorem generate_paperscript_missing_text:
  assumes "GEMINI_API_KEY \<noteq> []"
  shows "(\<forall>r. generate_content (gemini_request prompt) = Inr r \<and> response_text r = Inl AttributeError
            \<longrightarrow> snd (generate_paperscript GEMINI_API_KEY generate_content prompt) = Inr (response_str r))
       \<and> (\<forall>r t. generate_content (gemini_request prompt) = Inr r \<and> response_text r = Inr t
            \<longrightarrow> snd (generate_paperscript GEMINI_API_KEY generate_content prompt) = Inr t)
       \<and> (\<forall>e. snd (generate_paperscript GEMINI_API_KEY generate_content prompt) = Inl e
            \<longrightarrow> generate_content (gemini_request prompt) = Inl e
                \<or> (\<exists>r. generate_content (gemini_request prompt) = Inr r
                        \<and> response_text r = Inl e \<and> e \<noteq> AttributeError))
       \<and> fst (generate_paperscript GEMINI_API_KEY generate_content prompt) = [gemini_request prompt]"
  using assms
  by (auto simp: generate_paperscript_def split: sum.splits py_exception.splits)

text \<open>An input for C5 as amended: a response without the attribute \<^verbatim>\<open>.text\<close>.\<close>

theorem generate_paperscript_missing_text_witness:
  "''key'' \<noteq> []
   \<and> snd (generate_paperscript ''key''
        (\<lambda>_. Inr \<lparr>response_text = Inl AttributeError, response_str = ''<response>''\<rparr>) ''draw'')
      = Inr ''<response>''"
  using generate_paperscript_missing_text [of "''key''"
      "\<lambda>_. Inr \<lparr>response_text = Inl AttributeError, response_str = ''<response>''\<rparr>" "''draw''"]
  by simp

text \<open>
  C5 as stated fails: a response whose \<^verbatim>\<open>.text\<close> getter raises \<^verbatim>\<open>ValueError\<close> is not
  caught by \<^verbatim>\<open>except AttributeError\<close>, and the exception leaves the function.
\<close>

theorem generate_paperscript_text_raises:
  "snd (generate_paperscript ''key''
        (\<lambda>_. Inr \<lparr>response_text = Inl ValueError, response_str = ''<response>''\<rparr>) ''draw'')
      = Inl ValueError"
  by (simp add: generate_paperscript_def)

section \<open>Properties of the journal prompt\<close>

text \<open>
  C3.  For every text (empty or not) and every category, the output of
  \<open>build_journal_prompt\<close> contains the text unmodified as a contiguous substring, on
  the line after \<^verbatim>\<open>Story context:\<close>, between two triple double quotes.
\<close>

theorem build_journal_prompt_quotes_text:
  \<open>(\<exists>pre post. build_journal_prompt user_text context_type =
       pre @ ''Story context:\<newline>'' @ ''"""'' @ user_text @ ''"""'' @ ''\<newline>'' @ post)
   \<and> sublist user_text (build_journal_prompt user_text context_type)\<close>
proof
  have \<open>build_journal_prompt user_text context_type =
      (journal_prompt_goal @ context_type @ journal_prompt_requirements)
      @ ''Story context:\<newline>'' @ ''"""'' @ user_text @ ''"""'' @ ''\<newline>'' @ journal_prompt_rules\<close>
    by (simp add: build_journal_prompt_def)
  then show \<open>\<exists>pre post. build_journal_prompt user_text context_type =
       pre @ ''Story context:\<newline>'' @ ''"""'' @ user_text @ ''"""'' @ ''\<newline>'' @ post\<close>
    by blast
  have \<open>build_journal_prompt user_text context_type =
      (journal_prompt_goal @ context_type @ journal_prompt_requirements
      @ ''Story context:\<newline>'' @ ''"""'') @ user_text @ (''"""'' @ ''\<newline>'' @ journal_prompt_rules)\<close>
    by (simp add: build_journal_prompt_def)
  then show "sublist user_text (build_journal_prompt user_text context_type)"
    by (simp only: sublist_appendI)
qed



section \<open>Properties of the dataset summary\<close>

lemma summarize_dataframe_Inr:
  assumes "summarize_dataframe describe_csv df arg = Inr s"
  obtains entries where
    "column_entries df (map fst (columns df)) = Inr entries"
    "columns df \<noteq> []"
    \<open>s = ''Columns:\<newline>'' @ join '', '' entries @ ''\<newline>\<newline>Example rows:\<newline>''
         @ to_csv_noindex (head df (case arg of None \<Rightarrow> 5 | Some k \<Rightarrow> k))
         @ ''\<newline>\<newline>Basic stats (where numeric):\<newline>'' @ describe_csv df\<close>
  using assms
  by (auto simp: summarize_dataframe_def describe_to_csv_def Let_def split: sum.splits if_splits)

lemma head_rows: "0 \<le> k \<Longrightarrow> rows (head df k) = take (nat k) (rows df)"
  and head_columns: "columns (head df k) = columns df"
  by (simp_all add: head_def)

text \<open>
  C4.  For every dataset and every \<open>max_rows = k \<ge> 0\<close>, the frame that is written as
  the row sample holds the first \<open>k\<close> rows of the dataset, which are
  \<open>min k (rowcount)\<close> rows, and a summary that is returned consists of the column
  listing, the line \<^verbatim>\<open>Example rows:\<close>, the header record, one record for each of these
  rows, and the statistics.  For the dataset with the columns age and name and the
  rows (5, a), (6, b), (7, c) and \<open>k = 2\<close> the sample is the header and the first two
  rows.  An omitted \<^verbatim>\<open>max_rows\<close> is 5.
\<close>

theorem summarize_dataframe_sample_rows:
  \<open>(0 \<le> k \<longrightarrow>
      rows (head df k) = take (nat k) (rows df)
      \<and> length (rows (head df k)) = min (nat k) (length (rows df))
      \<and> (\<forall>s. summarize_dataframe describe_csv df (Some k) = Inr s \<longrightarrow>
            (\<exists>pre. s = pre @ ''Example rows:\<newline>''
                @ csv_record (map fst (columns df))
                @ concat (map (\<lambda>r. csv_record (map cell_text r)) (take (nat k) (rows df)))
                @ ''\<newline>\<newline>Basic stats (where numeric):\<newline>'' @ describe_csv df)))
   \<and> summarize_dataframe describe_csv age_name_frame (Some 2) =
       Inr (''Columns:\<newline>age (int64), name (object)\<newline>\<newline>''
            @ ''Example rows:\<newline>age,name\<newline>5,a\<newline>6,b\<newline>''
            @ ''\<newline>\<newline>Basic stats (where numeric):\<newline>'' @ describe_csv age_name_frame)
   \<and> summarize_dataframe describe_csv df None = summarize_dataframe describe_csv df (Some 5)\<close>
proof (intro conjI impI allI)
  assume k: "0 \<le> k"
  then show "rows (head df k) = take (nat k) (rows df)"
    by (rule head_rows)
  from k show "length (rows (head df k)) = min (nat k) (length (rows df))"
    by (simp add: head_rows min.commute)
  fix s
  assume "summarize_dataframe describe_csv df (Some k) = Inr s"
  then obtain entries where
    \<open>s = ''Columns:\<newline>'' @ join '', '' entries @ ''\<newline>\<newline>Example rows:\<newline>''
         @ to_csv_noindex (head df k)
         @ ''\<newline>\<newline>Basic stats (where numeric):\<newline>'' @ describe_csv df\<close>
    by (rule summarize_dataframe_Inr) simp
  with k have \<open>s = (''Columns:\<newline>'' @ join '', '' entries @ ''\<newline>\<newline>'') @ ''Example rows:\<newline>''
                @ csv_record (map fst (columns df))
                @ concat (map (\<lambda>r. csv_record (map cell_text r)) (take (nat k) (rows df)))
                @ ''\<newline>\<newline>Basic stats (where numeric):\<newline>'' @ describe_csv df\<close>
    by (simp add: to_csv_noindex_def head_rows head_columns)
  then show \<open>\<exists>pre. s = pre @ ''Example rows:\<newline>''
                @ csv_record (map fst (columns df))
                @ concat (map (\<lambda>r. csv_record (map cell_text r)) (take (nat k) (rows df)))
                @ ''\<newline>\<newline>Basic stats (where numeric):\<newline>'' @ describe_csv df\<close>
    by blast
next
  show \<open>summarize_dataframe describe_csv age_name_frame (Some 2) =
       Inr (''Columns:\<newline>age (int64), name (object)\<newline>\<newline>''
            @ ''Example rows:\<newline>age,name\<newline>5,a\<newline>6,b\<newline>''
            @ ''\<newline>\<newline>Basic stats (where numeric):\<newline>'' @ describe_csv age_name_frame)\<close>
    by code_simp
next
  show "summarize_dataframe describe_csv df None = summarize_dataframe describe_csv df (Some 5)"
    by (simp add: summarize_dataframe_def)
qed

text \<open>An input for C4: the dataset of the scenario with \<open>k = 2\<close>.\<close>

theorem summarize_dataframe_sample_rows_witness:
  "(0::int) \<le> 2
   \<and> (\<exists>s. summarize_dataframe (\<lambda>_. []) age_name_frame (Some 2) = Inr s)
   \<and> length (rows (head age_name_frame 2)) = min (nat 2) (length (rows age_name_frame))"
  using summarize_dataframe_sample_rows [of 2 age_name_frame "\<lambda>_. []"]
  by simp

lemma filter_single:
  assumes "distinct (map fst cs)" "(n, d) \<in> set cs"
  shows "filter (\<lambda>c. fst c = n) cs = [(n, d)]"
  using assms
proof (induction cs)
  case Nil
  then show ?case by simp
next
  case (Cons c cs)
  show ?case
  proof (cases "c = (n, d)")
    case True
    with Cons.prems have "\<forall>x \<in> set cs. fst x \<noteq> n" by force
    then have "filter (\<lambda>c. fst c = n) cs = []" by (simp add: filter_empty_conv)
    with True show ?thesis by simp
  next
    case False
    with Cons.prems have "(n, d) \<in> set cs" by simp
    moreover from this have "n \<in> fst ` set cs" by force
    with Cons.prems have "fst c \<noteq> n" by auto
    ultimately show ?thesis using Cons by simp
  qed
qed

lemma column_dtype_distinct:
  assumes "distinct (map fst (columns df))" "(n, d) \<in> set (columns df)"
  shows "column_dtype df n = Inr d"
  using filter_single [OF assms] by (simp add: column_dtype_def)

lemma column_entries_distinct:
  assumes "distinct (map fst (columns df))" "set cs \<subseteq> set (columns df)"
  shows "column_entries df (map fst cs) = Inr (map (\<lambda>c. fst c @ '' ('' @ snd c @ '')'') cs)"
  using assms(2)
proof (induction cs)
  case Nil
  then show ?case by simp
next
  case (Cons c cs)
  obtain n d where c: "c = (n, d)" by (cases c)
  with Cons.prems have "column_dtype df n = Inr d"
    using column_dtype_distinct [OF assms(1)] by simp
  with Cons c show ?case by simp
qed

text \<open>
  C7, as amended.  For every dataset with zero rows, at least one column and pairwise
  distinct column names, \<open>summarize_dataframe\<close> returns a string: the column listing,
  a row sample that is the header record alone, and the statistics that pandas gives.
\<close>

theorem summarize_dataframe_zero_rows:
  assumes "rows df = []" and "columns df \<noteq> []" and "distinct (map fst (columns df))"
  shows \<open>summarize_dataframe describe_csv df max_rows_arg =
     Inr (''Columns:\<newline>'' @ join '', '' (map (\<lambda>c. fst c @ '' ('' @ snd c @ '')'') (columns df))
          @ ''\<newline>\<newline>Example rows:\<newline>'' @ csv_record (map fst (columns df))
          @ ''\<newline>\<newline>Basic stats (where numeric):\<newline>'' @ describe_csv df)\<close>
proof -
  have "column_entries df (map fst (columns df)) =
      Inr (map (\<lambda>c. fst c @ '' ('' @ snd c @ '')'') (columns df))"
    using assms(3) by (rule column_entries_distinct) simp
  moreover have "to_csv_noindex (head df k) = csv_record (map fst (columns df))" for k
    using assms(1) by (simp add: to_csv_noindex_def head_def)
  ultimately show ?thesis
    using assms(2) by (simp add: summarize_dataframe_def describe_to_csv_def)
qed

text \<open>An input for C7 as amended: one column and no row.\<close>

theorem summarize_dataframe_zero_rows_witness:
  \<open>rows \<lparr>columns = [(''age'', ''int64'')], rows = []\<rparr> = []
   \<and> columns \<lparr>columns = [(''age'', ''int64'')], rows = []\<rparr> \<noteq> []
   \<and> distinct (map fst (columns \<lparr>columns = [(''age'', ''int64'')], rows = []\<rparr>))
   \<and> summarize_dataframe (\<lambda>_. []) \<lparr>columns = [(''age'', ''int64'')], rows = []\<rparr> None =
       Inr ''Columns:\<newline>age (int64)\<newline>\<newline>Example rows:\<newline>age\<newline>\<newline>\<newline>Basic stats (where numeric):\<newline>''\<close>
  using summarize_dataframe_zero_rows [of "\<lparr>columns = [(''age'', ''int64'')], rows = []\<rparr>" "\<lambda>_. []" None]
  by (simp add: csv_record_def csv_field_def)

text \<open>
  C7 as stated fails: for the dataset with no row and no column,
  \<^verbatim>\<open>df.describe(...)\<close> raises \<^verbatim>\<open>ValueError\<close>, which nothing in \<open>summarize_dataframe\<close>
  catches.
\<close>

theorem summarize_dataframe_no_columns:
  "summarize_dataframe (\<lambda>_. []) \<lparr>columns = [], rows = []\<rparr> None = Inl ValueError"
  by (simp add: summarize_dataframe_def describe_to_csv_def)

section \<open>Properties of the table prompt\<close>

text \<open>
  C10.  For every dataset, \<open>build_table_prompt\<close> composes with the summarizer at the
  cap 5: when \<open>summarize_dataframe\<close> with \<open>max_rows = 5\<close> returns a summary, the prompt
  returned contains that summary verbatim between two lines of sixteen dashes; when it
  raises, \<open>build_table_prompt\<close> raises the same exception.
\<close>

theorem build_table_prompt_embeds_summary:
  \<open>(\<forall>s. summarize_dataframe describe_csv df (Some 5) = Inr s \<longrightarrow>
       (\<exists>pre post. build_table_prompt describe_csv df =
          Inr (pre @ ''----------------\<newline>'' @ s @ ''\<newline>'' @ ''----------------\<newline>'' @ post)))
   \<and> (\<forall>e. summarize_dataframe describe_csv df (Some 5) = Inl e \<longrightarrow>
          build_table_prompt describe_csv df = Inl e)\<close>
proof (intro conjI allI impI)
  fix s
  assume "summarize_dataframe describe_csv df (Some 5) = Inr s"
  then have \<open>build_table_prompt describe_csv df =
      Inr ((table_prompt_goal @ ''Dataset summary:\<newline>'') @ ''----------------\<newline>'' @ s
           @ ''\<newline>'' @ ''----------------\<newline>'' @ table_prompt_rules)\<close>
    by (simp add: build_table_prompt_def summarize_dataframe_def)
  then show \<open>\<exists>pre post. build_table_prompt describe_csv df =
          Inr (pre @ ''----------------\<newline>'' @ s @ ''\<newline>'' @ ''----------------\<newline>'' @ post)\<close>
    by blast
next
  fix e
  assume "summarize_dataframe describe_csv df (Some 5) = Inl e"
  then show "build_table_prompt describe_csv df = Inl e"
    by (simp add: build_table_prompt_def summarize_dataframe_def)
qed

text \<open>An input for C10: the dataset of the scenario.\<close>

theorem build_table_prompt_embeds_summary_witness:
  \<open>(\<exists>s. summarize_dataframe (\<lambda>_. []) age_name_frame (Some 5) = Inr s
        \<and> (\<exists>pre post. build_table_prompt (\<lambda>_. []) age_name_frame =
          Inr (pre @ ''----------------\<newline>'' @ s @ ''\<newline>'' @ ''----------------\<newline>'' @ post)))\<close>
proof -
  have \<open>summarize_dataframe (\<lambda>_. []) age_name_frame (Some 5) =
      Inr (''Columns:\<newline>age (int64), name (object)\<newline>\<newline>Example rows:\<newline>''
           @ ''age,name\<newline>5,a\<newline>6,b\<newline>7,c\<newline>''
           @ ''\<newline>\<newline>Basic stats (where numeric):\<newline>'')\<close>
    by code_simp
  with build_table_prompt_embeds_summary [of "\<lambda>_. []" age_name_frame] show ?thesis
    by blast
qed

section \<open>Markup in the prompts\<close>

lemma sublist_of_count: "count_occ p xs = Suc n \<Longrightarrow> sublist p xs"
  using count_occ_zero_iff [of p xs] by simp

lemma journal_prompt_goal_angles: "filter is_angle journal_prompt_goal = []"
  by code_simp

lemma journal_prompt_requirements_angles: "filter is_angle journal_prompt_requirements = []"
  by code_simp

lemma journal_prompt_rules_angles: "filter is_angle journal_prompt_rules = ''<>''"
  by code_simp

lemma table_prompt_goal_angles: "filter is_angle table_prompt_goal = []"
  by code_simp

lemma table_prompt_rules_angles: "filter is_angle table_prompt_rules = ''<>''"
  by code_simp

lemma journal_prompt_rules_script:
  "sublist ''- Do not include HTML or <script> tags.'' journal_prompt_rules"
proof -
  have "count_occ ''- Do not include HTML or <script> tags.'' journal_prompt_rules = Suc 0"
    by code_simp
  then show ?thesis by (rule sublist_of_count)
qed

lemma table_prompt_rules_script:
  "sublist ''- Do not include HTML or <script> tags.'' table_prompt_rules"
proof -
  have "count_occ ''- Do not include HTML or <script> tags.'' table_prompt_rules = Suc 0"
    by code_simp
  then show ?thesis by (rule sublist_of_count)
qed

lemma sublist_append_right: "sublist p ys \<Longrightarrow> sublist p (xs @ ys)"
  by (simp add: sublist_append)

text \<open>
  C6, as amended.  Each prompt is fixed instruction text around the values inserted
  verbatim: the category and the text in journal mode, the dataset summary in table
  mode.  The fixed text is not free of markup: it holds exactly one tag, the
  \<^verbatim>\<open><script>\<close> of the instruction line \<^verbatim>\<open>- Do not include HTML or <script> tags.\<close>, and
  no other angle bracket.  So the angle brackets of a prompt are those of the inserted
  values followed by the two of that tag.
\<close>

theorem prompts_single_script_tag:
  \<open>filter is_angle (build_journal_prompt user_text context_type) =
       filter is_angle context_type @ filter is_angle user_text @ ''<>''
   \<and> sublist ''- Do not include HTML or <script> tags.'' (build_journal_prompt user_text context_type)
   \<and> (\<forall>s. summarize_dataframe describe_csv df None = Inr s \<longrightarrow>
         (\<exists>p. build_table_prompt describe_csv df = Inr p
              \<and> filter is_angle p = filter is_angle s @ ''<>''
              \<and> sublist ''- Do not include HTML or <script> tags.'' p))\<close>
proof (intro conjI allI impI)
  show \<open>filter is_angle (build_journal_prompt user_text context_type) =
       filter is_angle context_type @ filter is_angle user_text @ ''<>''\<close>
    by (simp add: build_journal_prompt_def journal_prompt_goal_angles
        journal_prompt_requirements_angles journal_prompt_rules_angles is_angle_def)
  show "sublist ''- Do not include HTML or <script> tags.'' (build_journal_prompt user_text context_type)"
    unfolding build_journal_prompt_def
    by (intro sublist_append_right journal_prompt_rules_script)
next
  fix s
  assume "summarize_dataframe describe_csv df None = Inr s"
  then have p: \<open>build_table_prompt describe_csv df =
      Inr (table_prompt_goal @ ''Dataset summary:\<newline>'' @ ''----------------\<newline>'' @ s @ ''\<newline>''
           @ ''----------------\<newline>'' @ table_prompt_rules)\<close>
    by (simp add: build_table_prompt_def)
  have \<open>filter is_angle (table_prompt_goal @ ''Dataset summary:\<newline>'' @ ''----------------\<newline>'' @ s
           @ ''\<newline>'' @ ''----------------\<newline>'' @ table_prompt_rules) = filter is_angle s @ ''<>''\<close>
    by (simp add: table_prompt_goal_angles table_prompt_rules_angles is_angle_def)
  moreover have \<open>sublist ''- Do not include HTML or <script> tags.''
      (table_prompt_goal @ ''Dataset summary:\<newline>'' @ ''----------------\<newline>'' @ s
           @ ''\<newline>'' @ ''----------------\<newline>'' @ table_prompt_rules)\<close>
    by (intro sublist_append_right table_prompt_rules_script)
  ultimately show \<open>\<exists>p. build_table_prompt describe_csv df = Inr p
              \<and> filter is_angle p = filter is_angle s @ ''<>''
              \<and> sublist ''- Do not include HTML or <script> tags.'' p\<close>
    using p by blast
qed

text \<open>An input for C6 as amended: the table prompt of the scenario's dataset.\<close>

theorem prompts_single_script_tag_witness:
  \<open>\<exists>s p. summarize_dataframe (\<lambda>_. []) age_name_frame None = Inr s
       \<and> build_table_prompt (\<lambda>_. []) age_name_frame = Inr p
       \<and> filter is_angle p = filter is_angle s @ ''<>''\<close>
proof -
  have \<open>summarize_dataframe (\<lambda>_. []) age_name_frame None =
      Inr (''Columns:\<newline>age (int64), name (object)\<newline>\<newline>Example rows:\<newline>''
           @ ''age,name\<newline>5,a\<newline>6,b\<newline>7,c\<newline>''
           @ ''\<newline>\<newline>Basic stats (where numeric):\<newline>'')\<close>
    by code_simp
  with prompts_single_script_tag [of "''x''" "''dream''" "\<lambda>_. []" age_name_frame] show ?thesis
    by blast
qed

text \<open>
  C6 as stated fails: the journal prompt of a plain sentence contains a markup tag.
\<close>

theorem build_journal_prompt_has_script_tag:
  "has_markup_tag (build_journal_prompt ''I swam across the sea at night'' ''dream'')"
  by code_simp

end
